theory Spec2Isabelle
  imports Main "HOL-Library.AList"
begin

section \<open>Python values, exceptions and HTTP outcomes\<close>

text \<open>
  The service (\<^verbatim>\<open>app.py\<close>) handles JSON payloads and framework objects. One datatype
  holds both: the JSON values (numbers are integers here), and message objects
  (\<^verbatim>\<open>HumanMessage\<close>, \<^verbatim>\<open>AIMessage\<close>, \<^verbatim>\<open>SystemMessage\<close>), which carry a role and a content.
  A dictionary is an association list in insertion order.
\<close>

datatype role = HumanMessage | AIMessage | SystemMessage

datatype pyval =
    PNone
  | PBool bool
  | PInt int
  | PStr string
  | PList "pyval list"
  | PDict "(string \<times> pyval) list"
  | PMsg role pyval

datatype py_error = KeyError | TypeError | IndexError | AttributeError | LibraryError string

text \<open>
  A request ends in a response body, in \<^verbatim>\<open>abort(status)\<close>, or in an exception nobody
  catches, which the web framework answers with status 500.
\<close>

datatype failure = HTTPException nat | Unhandled py_error

fun http_status :: "failure \<Rightarrow> nat" where
  "http_status (HTTPException n) = n"
| "http_status (Unhandled e) = 500"

definition and_then :: "'e + 'a \<Rightarrow> ('a \<Rightarrow> 'e + 'b) \<Rightarrow> 'e + 'b" where
  "and_then m f = (case m of Inl e \<Rightarrow> Inl e | Inr x \<Rightarrow> f x)"

definition unhandled :: "py_error + 'a \<Rightarrow> failure + 'a" where
  "unhandled m = (case m of Inl e \<Rightarrow> Inl (Unhandled e) | Inr x \<Rightarrow> Inr x)"

text \<open>Truth value of an object, as \<^verbatim>\<open>if history:\<close> and \<^verbatim>\<open>payload and ...\<close> test it.\<close>

fun truthy :: "pyval \<Rightarrow> bool" where
  "truthy PNone = False"
| "truthy (PBool b) = b"
| "truthy (PInt n) = (n \<noteq> 0)"
| "truthy (PStr s) = (s \<noteq> [])"
| "truthy (PList xs) = (xs \<noteq> [])"
| "truthy (PDict kvs) = (kvs \<noteq> [])"
| "truthy (PMsg r c) = True"

fun starts_with :: "string \<Rightarrow> string \<Rightarrow> bool" where
  "starts_with [] s = True"
| "starts_with (k # ks) [] = False"
| "starts_with (k # ks) (c # cs) = (k = c \<and> starts_with ks cs)"

fun str_contains :: "string \<Rightarrow> string \<Rightarrow> bool" where
  "str_contains k [] = (k = [])"
| "str_contains k (c # cs) = (starts_with k (c # cs) \<or> str_contains k cs)"

text \<open>
  \<^verbatim>\<open>k in v\<close> for a string \<open>k\<close>: a key of a dictionary, an element of a list, a substring
  of a string; any other object is not iterable.
\<close>

fun contains :: "pyval \<Rightarrow> string \<Rightarrow> py_error + bool" where
  "contains (PDict kvs) k = Inr (map_of kvs k \<noteq> None)"
| "contains (PList xs) k = Inr (PStr k \<in> set xs)"
| "contains (PStr s) k = Inr (str_contains k s)"
| "contains v k = Inl TypeError"

text \<open>\<^verbatim>\<open>v[k]\<close>, \<^verbatim>\<open>v[k] = x\<close> and \<^verbatim>\<open>del v[k]\<close> for a string \<open>k\<close>.\<close>

fun getitem :: "pyval \<Rightarrow> string \<Rightarrow> py_error + pyval" where
  "getitem (PDict kvs) k = (case map_of kvs k of None \<Rightarrow> Inl KeyError | Some x \<Rightarrow> Inr x)"
| "getitem v k = Inl TypeError"

fun setitem :: "pyval \<Rightarrow> string \<Rightarrow> pyval \<Rightarrow> py_error + pyval" where
  "setitem (PDict kvs) k x = Inr (PDict (AList.update k x kvs))"
| "setitem v k x = Inl TypeError"

fun delitem :: "pyval \<Rightarrow> string \<Rightarrow> py_error + pyval" where
  "delitem (PDict kvs) k =
     (case map_of kvs k of None \<Rightarrow> Inl KeyError | Some x \<Rightarrow> Inr (PDict (AList.delete k kvs)))"
| "delitem v k = Inl TypeError"

text \<open>Iteration: a list gives its elements, a string its characters, a dictionary its keys.\<close>

fun iterate :: "pyval \<Rightarrow> py_error + pyval list" where
  "iterate (PList xs) = Inr xs"
| "iterate (PStr s) = Inr (map (\<lambda>c. PStr [c]) s)"
| "iterate (PDict kvs) = Inr (map (\<lambda>kv. PStr (fst kv)) kvs)"
| "iterate v = Inl TypeError"

text \<open>\<^verbatim>\<open>obj.content\<close>\<close>

fun content :: "pyval \<Rightarrow> py_error + pyval" where
  "content (PMsg r c) = Inr c"
| "content v = Inl AttributeError"

fun map_err :: "('a \<Rightarrow> 'e + 'b) \<Rightarrow> 'a list \<Rightarrow> 'e + 'b list" where
  "map_err f [] = Inr []"
| "map_err f (x # xs) =
     (case f x of Inl e \<Rightarrow> Inl e
      | Inr y \<Rightarrow> (case map_err f xs of Inl e \<Rightarrow> Inl e | Inr ys \<Rightarrow> Inr (y # ys)))"

section \<open>The external collaborators\<close>

text \<open>
  The policy handed to the trimming utility (\<^verbatim>\<open>trim_messages(max_tokens=500,
  strategy="last", token_counter=model, include_system=True, allow_partial=False,
  start_on="human")\<close>).
\<close>

datatype strategy = First | Last

record trim_policy =
  max_tokens :: nat
  strategy :: strategy
  include_system :: bool
  allow_partial :: bool
  start_on :: role

text \<open>A checkpoint tuple of the snapshot store.\<close>

record checkpoint_tuple =
  config :: pyval
  checkpoint :: pyval
  metadata :: pyval
  new_version :: pyval

text \<open>
  What the frameworks and the remote model do is not code of the service; it is a
  parameter of the model:
  \<^item> \<open>validate_content\<close>: the message constructor's check of a content that is not a string;
  \<^item> \<open>coerce_input\<close>: the messages the pipeline makes of an input that is not a string;
  \<^item> \<open>trim_messages\<close>: the trimming utility, counting tokens with the remote model's tokenizer;
  \<^item> \<open>chat_completion\<close>: the remote model, from the prompt to the text of its reply;
  \<^item> \<open>pretty_repr\<close>: the framework's pretty-printer of a message;
  \<^item> \<open>bookkeeping\<close>: the fields the pipeline writes into a new checkpoint tuple besides the
    messages, from the tuple it found.
\<close>

record env =
  validate_content :: "pyval \<Rightarrow> py_error + pyval"
  coerce_input :: "pyval \<Rightarrow> py_error + pyval list"
  trim_messages :: "trim_policy \<Rightarrow> pyval list \<Rightarrow> py_error + pyval list"
  chat_completion :: "pyval list \<Rightarrow> py_error + string"
  pretty_repr :: "pyval \<Rightarrow> string"
  bookkeeping :: "checkpoint_tuple option \<Rightarrow> checkpoint_tuple"

text \<open>\<^verbatim>\<open>HumanMessage(content=prompt)\<close>, \<^verbatim>\<open>AIMessage(content=prompt)\<close>: a string is a content.\<close>

fun new_message :: "env \<Rightarrow> role \<Rightarrow> pyval \<Rightarrow> py_error + pyval" where
  "new_message e r (PStr s) = Inr (PMsg r (PStr s))"
| "new_message e r v = (case validate_content e v of Inl x \<Rightarrow> Inl x | Inr c \<Rightarrow> Inr (PMsg r c))"

section \<open>The snapshot store\<close>

type_synonym memory_saver = "pyval \<Rightarrow> checkpoint_tuple option"

record llm_handle =
  checkpointer :: memory_saver

definition graph_config :: pyval where
  "graph_config = PDict [(''configurable'', PDict [(''thread_id'', PStr ''1'')])]"

definition thread_id :: "pyval \<Rightarrow> py_error + pyval" where
  "thread_id cfg = and_then (getitem cfg ''configurable'') (\<lambda>c. getitem c ''thread_id'')"

text \<open>
  Modelled from the spec: the snapshot store (the framework's \<^verbatim>\<open>MemorySaver\<close>), which is
  not code of the service, here its \<^verbatim>\<open>put\<close>. "feeds config, checkpoint, metadata,
  new_version into the underlying snapshot store keyed by config's session identifier";
  "Reads back the latest checkpoint tuple for config from the snapshot store".
\<close>

definition put :: "memory_saver \<Rightarrow> pyval \<Rightarrow> pyval \<Rightarrow> pyval \<Rightarrow> pyval \<Rightarrow> py_error + memory_saver" where
  "put memory cfg ck md nv =
     and_then (thread_id cfg) (\<lambda>tid.
       Inr (memory(tid \<mapsto> \<lparr>config = cfg, checkpoint = ck, metadata = md, new_version = nv\<rparr>)))"

text \<open>
  Modelled from the spec: the store's \<^verbatim>\<open>get_tuple\<close> (framework code): the tuple stored
  for the session identifier of \<open>cfg\<close>, \<^verbatim>\<open>None\<close> when there is none.
\<close>

definition get_tuple :: "memory_saver \<Rightarrow> pyval \<Rightarrow> py_error + checkpoint_tuple option" where
  "get_tuple memory cfg = and_then (thread_id cfg) (\<lambda>tid. Inr (memory tid))"

section \<open>The service\<close>

subsection \<open>\<^verbatim>\<open>init_state_graph\<close>\<close>

text \<open>
  The comprehension \<^verbatim>\<open>[HumanMessage(content=prompt) if idx % 2 == 0 else
  AIMessage(content=prompt) for idx, prompt in enumerate(history['prompt_list'])]\<close>,
  from index \<open>idx\<close> on.
\<close>

fun message_objects :: "env \<Rightarrow> nat \<Rightarrow> pyval list \<Rightarrow> py_error + pyval list" where
  "message_objects e idx [] = Inr []"
| "message_objects e idx (prompt # prompts) =
     (case new_message e (if idx mod 2 = 0 then HumanMessage else AIMessage) prompt of
        Inl x \<Rightarrow> Inl x
      | Inr m \<Rightarrow> (case message_objects e (Suc idx) prompts of
                   Inl x \<Rightarrow> Inl x
                 | Inr ms \<Rightarrow> Inr (m # ms)))"

text \<open>
  The store is made anew in every call (\<^verbatim>\<open>memory = MemorySaver()\<close>). The assignment
  \<^verbatim>\<open>history['checkpoint']['channel_values']['messages'] = message_objects\<close> changes the
  checkpoint that \<^verbatim>\<open>memory.put\<close> then receives. No history is \<^verbatim>\<open>None\<close>.
\<close>

definition init_state_graph :: "env \<Rightarrow> pyval \<Rightarrow> py_error + llm_handle" where
  "init_state_graph e history =
     (let memory = Map.empty in
      if truthy history then
        and_then (getitem history ''prompt_list'') (\<lambda>prompt_list.
        and_then (iterate prompt_list) (\<lambda>prompts.
        and_then (message_objects e 0 prompts) (\<lambda>msgs.
        and_then (getitem history ''checkpoint'') (\<lambda>ck.
        and_then (getitem ck ''channel_values'') (\<lambda>cv.
        and_then (setitem cv ''messages'' (PList msgs)) (\<lambda>cv'.
        and_then (setitem ck ''channel_values'' cv') (\<lambda>ck'.
        and_then (getitem history ''config'') (\<lambda>cfg.
        and_then (getitem history ''metadata'') (\<lambda>md.
        and_then (getitem history ''new_version'') (\<lambda>nv.
        and_then (put memory cfg ck' md nv) (\<lambda>memory'.
          Inr \<lparr>checkpointer = memory'\<rparr>)))))))))))
      else Inr \<lparr>checkpointer = memory\<rparr>)"

subsection \<open>\<^verbatim>\<open>pre_processing\<close> and \<^verbatim>\<open>call_model\<close>\<close>

definition system_prompt :: string where
  "system_prompt = ''You are a friendly alien, full of wisdom and goodness. Answer all questions to the best of your ability.''"

definition trimmer :: trim_policy where
  "trimmer = \<lparr>max_tokens = 500, strategy = Last, include_system = True,
              allow_partial = False, start_on = HumanMessage\<rparr>"

definition pre_processing :: "env \<Rightarrow> pyval list \<Rightarrow> py_error + pyval list" where
  "pre_processing e messages =
     and_then (trim_messages e trimmer messages) (\<lambda>trimmed_messages.
       Inr (PMsg SystemMessage (PStr system_prompt) # trimmed_messages))"

definition call_model :: "env \<Rightarrow> pyval list \<Rightarrow> py_error + pyval" where
  "call_model e messages =
     and_then (pre_processing e messages) (\<lambda>prompt.
     and_then (chat_completion e prompt) (\<lambda>text.
       Inr (PMsg AIMessage (PStr text))))"

subsection \<open>The pipeline run\<close>

text \<open>
  Modelled from the spec: the run of the pipeline (\<^verbatim>\<open>llm_handle.invoke\<close>, framework code),
  here the messages it makes of the input. The run reads the turns of the session slot of
  \<open>cfg\<close> (none when the slot is empty), "appends a Human turn with newInput", calls the model
  node (\<open>call_model\<close>, which is code of the service), "appends the returned Assistant turn
  to the session's committed history", and writes the slot: the message list in the
  checkpoint's message slot, and the transient "pending writes" field in the metadata.
\<close>

definition input_messages :: "env \<Rightarrow> pyval \<Rightarrow> py_error + pyval list" where
  "input_messages e inp =
     (case inp of PStr s \<Rightarrow> Inr [PMsg HumanMessage (PStr s)] | _ \<Rightarrow> coerce_input e inp)"

text \<open>
  Modelled from the spec: the turns that the pipeline run finds in a session slot, none in
  an empty slot.
\<close>

definition slot_messages :: "checkpoint_tuple option \<Rightarrow> py_error + pyval list" where
  "slot_messages slot =
     (case slot of
        None \<Rightarrow> Inr []
      | Some t \<Rightarrow> and_then (getitem (checkpoint t) ''channel_values'') (\<lambda>cv.
                  and_then (getitem cv ''messages'') iterate))"

text \<open>
  Modelled from the spec: \<^verbatim>\<open>llm_handle.invoke({"messages": inp}, cfg)\<close> (framework code), as
  described above; it returns the message list of the session and the handle with the slot
  written.
\<close>

definition invoke :: "env \<Rightarrow> llm_handle \<Rightarrow> pyval \<Rightarrow> pyval \<Rightarrow> py_error + (pyval list \<times> llm_handle)" where
  "invoke e h inp cfg =
     and_then (thread_id cfg) (\<lambda>tid.
     and_then (slot_messages (checkpointer h tid)) (\<lambda>prior.
     and_then (input_messages e inp) (\<lambda>new.
     and_then (call_model e (prior @ new)) (\<lambda>reply.
     (let msgs = prior @ new @ [reply]; t = bookkeeping e (checkpointer h tid) in
     and_then (getitem (checkpoint t) ''channel_values'') (\<lambda>cv.
     and_then (setitem cv ''messages'' (PList msgs)) (\<lambda>cv'.
     and_then (setitem (checkpoint t) ''channel_values'' cv') (\<lambda>ck.
     and_then (setitem (metadata t) ''writes'' (PDict [(''model'', PDict [(''messages'', reply)])])) (\<lambda>md.
       Inr (msgs, h\<lparr>checkpointer := (checkpointer h)(tid \<mapsto> t\<lparr>checkpoint := ck, metadata := md\<rparr>)\<rparr>))))))))))"

subsection \<open>\<^verbatim>\<open>post_processing\<close>\<close>

record reply =
  response :: string
  history :: pyval

text \<open>\<^verbatim>\<open>xs[-1]\<close>\<close>

definition last_item :: "'a list \<Rightarrow> py_error + 'a" where
  "last_item xs = (case xs of [] \<Rightarrow> Inl IndexError | _ \<Rightarrow> Inr (last xs))"

text \<open>
  Lines 105 to 122: the history. Subscripting \<^verbatim>\<open>None\<close> (no checkpoint for the config)
  is a \<^verbatim>\<open>TypeError\<close>. The two \<^verbatim>\<open>del\<close> change the checkpoint and the metadata that go
  into the history.
\<close>

definition history_snapshot :: "llm_handle \<Rightarrow> pyval \<Rightarrow> py_error + pyval" where
  "history_snapshot h cfg =
     and_then (get_tuple (checkpointer h) cfg) (\<lambda>raw_memory.
     (case raw_memory of
        None \<Rightarrow> Inl TypeError
      | Some t \<Rightarrow>
        and_then (getitem (checkpoint t) ''channel_values'') (\<lambda>cv.
        and_then (getitem cv ''messages'') (\<lambda>ms.
        and_then (iterate ms) (\<lambda>objs.
        and_then (map_err content objs) (\<lambda>prompt_list.
        and_then (delitem cv ''messages'') (\<lambda>cv'.
        and_then (setitem (checkpoint t) ''channel_values'' cv') (\<lambda>ck.
        and_then (delitem (metadata t) ''writes'') (\<lambda>md.
          Inr (PDict [(''config'', config t),
                      (''checkpoint'', ck),
                      (''prompt_list'', PList prompt_list),
                      (''metadata'', md),
                      (''new_version'', new_version t)]))))))))))"

text \<open>
  Line 125: \<^verbatim>\<open>llm_response["messages"][-1].pretty_repr()[82:]\<close>, where \<open>llm_response\<close> is
  the message list under \<^verbatim>\<open>"messages"\<close>.
\<close>

definition response_text :: "env \<Rightarrow> pyval list \<Rightarrow> py_error + string" where
  "response_text e llm_response =
     and_then (last_item llm_response) (\<lambda>newest. Inr (drop 82 (pretty_repr e newest)))"

definition post_processing :: "env \<Rightarrow> pyval list \<Rightarrow> llm_handle \<Rightarrow> pyval \<Rightarrow> py_error + reply" where
  "post_processing e llm_response h cfg =
     and_then (history_snapshot h cfg) (\<lambda>hist.
     and_then (response_text e llm_response) (\<lambda>resp.
       Inr \<lparr>response = resp, history = hist\<rparr>))"

subsection \<open>\<^verbatim>\<open>main\<close>\<close>

text \<open>
  \<open>payload\<close> is what \<^verbatim>\<open>request.get_json()\<close> returned: the parsed JSON body, \<^verbatim>\<open>None\<close>
  for the body \<^verbatim>\<open>null\<close> and for a request without a JSON body where the web framework
  returns \<^verbatim>\<open>None\<close> for it.
  \<^verbatim>\<open>payload and 'human_input' in payload\<close> tests the key only of a payload that is true.
  Lines 50 to 56 give the answer of the pipeline and the handle; line 58 makes the reply
  of them.
\<close>

definition restore_and_invoke :: "env \<Rightarrow> pyval \<Rightarrow> failure + (pyval list \<times> llm_handle)" where
  "restore_and_invoke e payload =
     (case (if truthy payload then contains payload ''human_input'' else Inr False) of
        Inl x \<Rightarrow> Inl (Unhandled x)
      | Inr ok \<Rightarrow>
          if \<not> ok then Inl (HTTPException 400)
          else unhandled (
            and_then (contains payload ''history'') (\<lambda>has_history.
            and_then (if has_history
                      then and_then (getitem payload ''history'') (init_state_graph e)
                      else init_state_graph e PNone) (\<lambda>llm_handle.
            and_then (getitem payload ''human_input'') (\<lambda>human_input.
              invoke e llm_handle human_input graph_config)))))"

definition main :: "env \<Rightarrow> pyval \<Rightarrow> failure + reply" where
  "main e payload =
     (case restore_and_invoke e payload of
        Inl f \<Rightarrow> Inl f
      | Inr r \<Rightarrow> unhandled (post_processing e (fst r) (snd r) graph_config))"

text \<open>
  The process handles one request after the other. Its module-level objects are \<^verbatim>\<open>app\<close>
  and \<^verbatim>\<open>graph_config\<close>, which no request changes, so nothing goes from one request to the
  next.
\<close>

definition serve :: "env \<Rightarrow> pyval list \<Rightarrow> (failure + reply) list" where
  "serve e payloads = map (main e) payloads"

text \<open>
  One decode/encode cycle with no turn added: restoration, then the snapshot of the session
  slot.
\<close>

definition restore_snapshot :: "env \<Rightarrow> pyval \<Rightarrow> py_error + pyval" where
  "restore_snapshot e hist =
     and_then (init_state_graph e hist) (\<lambda>h. history_snapshot h graph_config)"

text \<open>The role of a message object.\<close>

fun role_of :: "pyval \<Rightarrow> role option" where
  "role_of (PMsg r c) = Some r"
| "role_of v = None"

text \<open>The turn list of the session when the pipeline has run (the first component of lines 50 to 56).\<close>

definition session_turns :: "env \<Rightarrow> pyval \<Rightarrow> failure + pyval list" where
  "session_turns e payload =
     (case restore_and_invoke e payload of Inl f \<Rightarrow> Inl f | Inr r \<Rightarrow> Inr (fst r))"

text \<open>
  The prompts that restoration reads from the payload's history: none without a history, or
  with one that is not true.
\<close>

definition restored_prompts :: "pyval \<Rightarrow> pyval list" where
  "restored_prompts payload =
     (case getitem payload ''history'' of
        Inl x \<Rightarrow> []
      | Inr hist \<Rightarrow>
          if truthy hist
          then (case and_then (getitem hist ''prompt_list'') iterate of Inl x \<Rightarrow> [] | Inr ps \<Rightarrow> ps)
          else [])"

text \<open>
  Turns that alternate from index \<open>idx\<close> on, Human at the even indices and Assistant at the odd
  ones, each with a string as its text.
\<close>

fun alternating :: "nat \<Rightarrow> pyval list \<Rightarrow> bool" where
  "alternating idx [] = True"
| "alternating idx (m # ms) =
     ((case m of
         PMsg r (PStr s) \<Rightarrow> r = (if idx mod 2 = 0 then HumanMessage else AIMessage)
       | _ \<Rightarrow> False) \<and> alternating (Suc idx) ms)"

section \<open>An instance of the collaborators\<close>

text \<open>
  For evaluating the service on concrete requests: a constructor that refuses every
  content that is not a string, a trimmer that keeps every turn, a model with one answer,
  a pretty-printer that writes an 80-column title line and an empty line before the
  content, and a pipeline that starts a session with a small checkpoint and keeps the
  fields of the one it finds.
\<close>

definition title_line :: string where
  "title_line = replicate 34 CHR ''='' @ '' Ai Message '' @ replicate 34 CHR ''=''"

definition example_env :: env where
  "example_env =
     \<lparr>validate_content = (\<lambda>v. Inl (LibraryError ''ValidationError'')),
      coerce_input = (\<lambda>v. Inl (LibraryError ''ValueError'')),
      trim_messages = (\<lambda>p ms. Inr ms),
      chat_completion = (\<lambda>prompt. Inr ''Greetings, earthling.''),
      pretty_repr = (\<lambda>m. title_line @ [CHR 0x0A, CHR 0x0A] @
                            (case m of PMsg r (PStr s) \<Rightarrow> s | _ \<Rightarrow> [])),
      bookkeeping = (\<lambda>slot. case slot of
          None \<Rightarrow> \<lparr>config = graph_config,
                    checkpoint = PDict [(''v'', PInt 1), (''channel_values'', PDict [])],
                    metadata = PDict [(''step'', PInt 1)],
                    new_version = PNone\<rparr>
        | Some t \<Rightarrow> t)\<rparr>"

text \<open>The history that the first request \<^verbatim>\<open>{"human_input": "Hello"}\<close> brings back.\<close>

definition example_history :: pyval where
  "example_history =
     PDict [(''config'', graph_config),
            (''checkpoint'', PDict [(''v'', PInt 1), (''channel_values'', PDict [])]),
            (''prompt_list'', PList [PStr ''Hello'', PStr ''Greetings, earthling.'']),
            (''metadata'', PDict [(''step'', PInt 1)]),
            (''new_version'', PNone)]"

text \<open>The session of that first request: its turns and its handle after the pipeline run.\<close>

definition example_turns :: "pyval list" where
  "example_turns = [PMsg HumanMessage (PStr ''Hello''), PMsg AIMessage (PStr ''Greetings, earthling.'')]"

definition example_handle :: llm_handle where
  "example_handle =
     \<lparr>checkpointer = [PStr ''1'' \<mapsto>
        \<lparr>config = graph_config,
         checkpoint = PDict [(''v'', PInt 1),
                             (''channel_values'', PDict [(''messages'', PList example_turns)])],
         metadata = PDict [(''step'', PInt 1),
                           (''writes'', PDict [(''model'', PDict [(''messages'',
                               PMsg AIMessage (PStr ''Greetings, earthling.''))])])],
         new_version = PNone\<rparr>]\<rparr>"


section \<open>An instance with the framework's shapes\<close>

text \<open>
  A second instance of the collaborators, with the shapes that the framework gives a
  session: a config with thread id, namespace and checkpoint id; a checkpoint with its
  version, time stamp, id, channel values, channel versions, versions seen and pending
  sends; a metadata with source, step and parents; the config of the parent checkpoint as
  the fourth component. Its pretty-printer strips the printed form of its trailing blanks,
  and its pipeline takes a list of strings for as many Human turns.
\<close>

definition blank :: "char \<Rightarrow> bool" where
  "blank c = (c \<in> set [CHR '' '', CHR 0x09, CHR 0x0A, CHR 0x0B, CHR 0x0C, CHR 0x0D])"

definition rstrip :: "string \<Rightarrow> string" where
  "rstrip s = rev (dropWhile blank (rev s))"

definition run_config :: "string \<Rightarrow> string \<Rightarrow> pyval" where
  "run_config tid cid =
     PDict [(''configurable'', PDict [(''thread_id'', PStr tid),
                                      (''checkpoint_ns'', PStr []),
                                      (''checkpoint_id'', PStr cid)])]"

definition run_checkpoint :: "string \<Rightarrow> pyval" where
  "run_checkpoint cid =
     PDict [(''v'', PInt 1),
            (''ts'', PStr ''2024-10-01T12:00:00.000000+00:00''),
            (''id'', PStr cid),
            (''channel_values'', PDict [(''model'', PStr ''model'')]),
            (''channel_versions'', PDict [(''__start__'', PInt 2), (''messages'', PInt 3),
                                          (''start:model'', PInt 3), (''model'', PInt 3)]),
            (''versions_seen'', PDict [(''__input__'', PDict []),
                                       (''__start__'', PDict [(''__start__'', PInt 1)]),
                                       (''model'', PDict [(''start:model'', PInt 2)])]),
            (''pending_sends'', PList [])]"

definition run_metadata :: pyval where
  "run_metadata = PDict [(''source'', PStr ''loop''), (''step'', PInt 1), (''parents'', PDict [])]"

definition human_turn :: "pyval \<Rightarrow> py_error + pyval" where
  "human_turn v =
     (case v of PStr s \<Rightarrow> Inr (PMsg HumanMessage (PStr s)) | _ \<Rightarrow> Inl (LibraryError ''ValueError''))"

definition framework_env :: env where
  "framework_env =
     \<lparr>validate_content = (\<lambda>v. Inl (LibraryError ''ValidationError'')),
      coerce_input = (\<lambda>v. case v of PList xs \<Rightarrow> map_err human_turn xs
                                 | _ \<Rightarrow> Inl (LibraryError ''ValueError'')),
      trim_messages = (\<lambda>p ms. Inr ms),
      chat_completion = (\<lambda>prompt. Inr ''Greetings, earthling.''),
      pretty_repr = (\<lambda>m. rstrip (title_line @ [CHR 0x0A, CHR 0x0A] @
                                    (case m of PMsg r (PStr s) \<Rightarrow> s | _ \<Rightarrow> []))),
      bookkeeping = (\<lambda>slot. case slot of
          None \<Rightarrow> \<lparr>config = run_config ''1'' ''1ef8a2c4-7d10-6b32-8001-3c5e9f0a1b22'',
                    checkpoint = run_checkpoint ''1ef8a2c4-7d10-6b32-8001-3c5e9f0a1b22'',
                    metadata = run_metadata,
                    new_version = run_config ''1'' ''1ef8a2c4-7d0a-6e18-8000-3c5e9f0a1b22''\<rparr>
        | Some t \<Rightarrow> \<lparr>config = run_config ''1'' ''1ef8a2d9-41c6-6f04-8003-3c5e9f0a1b22'',
                      checkpoint = (case checkpoint t of
                          PDict kvs \<Rightarrow> PDict (AList.update ''id'' (PStr ''1ef8a2d9-41c6-6f04-8003-3c5e9f0a1b22'') kvs)
                        | v \<Rightarrow> v),
                      metadata = metadata t,
                      new_version = run_config ''1'' ''1ef8a2d9-41bf-6c9a-8002-3c5e9f0a1b22''\<rparr>)\<rparr>"

text \<open>A remote model that answers with a blank at the end, and one that cannot be reached.\<close>

definition trailing_blank_env :: env where
  "trailing_blank_env = framework_env\<lparr>chat_completion := (\<lambda>prompt. Inr ''Hi '')\<rparr>"


text \<open>
  The history that a request on a restored session brings back in this instance, with the
  prompt list \<open>pl\<close>.
\<close>

definition later_history :: "pyval list \<Rightarrow> pyval" where
  "later_history pl =
     PDict [(''config'', run_config ''1'' ''1ef8a2d9-41c6-6f04-8003-3c5e9f0a1b22''),
            (''checkpoint'', run_checkpoint ''1ef8a2d9-41c6-6f04-8003-3c5e9f0a1b22''),
            (''prompt_list'', PList pl),
            (''metadata'', run_metadata),
            (''new_version'', run_config ''1'' ''1ef8a2d9-41bf-6c9a-8002-3c5e9f0a1b22'')]"

text \<open>
  The history that the first request \<^verbatim>\<open>{"human_input": "Hello"}\<close> brings back in this
  instance, and the handle of that request after the pipeline run.
\<close>

definition first_history :: pyval where
  "first_history =
     PDict [(''config'', run_config ''1'' ''1ef8a2c4-7d10-6b32-8001-3c5e9f0a1b22''),
            (''checkpoint'', run_checkpoint ''1ef8a2c4-7d10-6b32-8001-3c5e9f0a1b22''),
            (''prompt_list'', PList [PStr ''Hello'', PStr ''Greetings, earthling.'']),
            (''metadata'', run_metadata),
            (''new_version'', run_config ''1'' ''1ef8a2c4-7d0a-6e18-8000-3c5e9f0a1b22'')]"

definition first_handle :: llm_handle where
  "first_handle =
     \<lparr>checkpointer = [PStr ''1'' \<mapsto>
        \<lparr>config = run_config ''1'' ''1ef8a2c4-7d10-6b32-8001-3c5e9f0a1b22'',
         checkpoint = PDict
           [(''v'', PInt 1),
            (''ts'', PStr ''2024-10-01T12:00:00.000000+00:00''),
            (''id'', PStr ''1ef8a2c4-7d10-6b32-8001-3c5e9f0a1b22''),
            (''channel_values'', PDict [(''model'', PStr ''model''),
                                        (''messages'', PList example_turns)]),
            (''channel_versions'', PDict [(''__start__'', PInt 2), (''messages'', PInt 3),
                                          (''start:model'', PInt 3), (''model'', PInt 3)]),
            (''versions_seen'', PDict [(''__input__'', PDict []),
                                       (''__start__'', PDict [(''__start__'', PInt 1)]),
                                       (''model'', PDict [(''start:model'', PInt 2)])]),
            (''pending_sends'', PList [])],
         metadata = PDict [(''source'', PStr ''loop''), (''step'', PInt 1), (''parents'', PDict []),
                           (''writes'', PDict [(''model'', PDict [(''messages'',
                               PMsg AIMessage (PStr ''Greetings, earthling.''))])])],
         new_version = run_config ''1'' ''1ef8a2c4-7d0a-6e18-8000-3c5e9f0a1b22''\<rparr>]\<rparr>"

text \<open>
  The first history with a single prompt, and the first history under thread id \<^verbatim>\<open>"2"\<close>.
\<close>

definition odd_history :: pyval where
  "odd_history =
     PDict [(''config'', run_config ''1'' ''1ef8a2c4-7d10-6b32-8001-3c5e9f0a1b22''),
            (''checkpoint'', run_checkpoint ''1ef8a2c4-7d10-6b32-8001-3c5e9f0a1b22''),
            (''prompt_list'', PList [PStr ''Hello'']),
            (''metadata'', run_metadata),
            (''new_version'', run_config ''1'' ''1ef8a2c4-7d0a-6e18-8000-3c5e9f0a1b22'')]"


section \<open>Basic facts\<close>

lemma and_then_Inl [simp]: "and_then (Inl x) f = Inl x"
  by (simp add: and_then_def)

lemma and_then_Inr [simp]: "and_then (Inr x) f = f x"
  by (simp add: and_then_def)

lemma and_then_eq_Inr: "(and_then m f = Inr y) = (\<exists>x. m = Inr x \<and> f x = Inr y)"
  by (cases m) simp_all

lemma unhandled_eq_Inr: "(unhandled m = Inr y) = (m = Inr y)"
  by (cases m) (simp_all add: unhandled_def)

lemma unhandled_status: "unhandled m = Inl f \<Longrightarrow> http_status f = 500"
  by (cases m) (auto simp: unhandled_def)

lemma thread_id_graph_config [simp]: "thread_id graph_config = Inr (PStr ''1'')"
  by (simp add: thread_id_def graph_config_def)

lemma getitem_update [simp]: "getitem (PDict (AList.update k x kvs)) k = Inr x"
  by (simp add: update_conv')

lemma map_err_content_msgs:
  "map_err content ms = Inr cs \<Longrightarrow> length cs = length ms"
  by (induction ms arbitrary: cs) (auto split: sum.splits)

lemma map_err_append:
  "map_err f (xs @ ys) =
     (case map_err f xs of Inl x \<Rightarrow> Inl x
      | Inr as \<Rightarrow> (case map_err f ys of Inl x \<Rightarrow> Inl x | Inr bs \<Rightarrow> Inr (as @ bs)))"
  by (induction xs) (auto split: sum.splits)

lemma invoke_Inr:
  assumes "invoke e h inp cfg = Inr res"
  shows "\<exists>tid prior new prompt text t.
           thread_id cfg = Inr tid \<and>
           slot_messages (checkpointer h tid) = Inr prior \<and>
           input_messages e inp = Inr new \<and>
           chat_completion e prompt = Inr text \<and>
           fst res = prior @ new @ [PMsg AIMessage (PStr text)] \<and>
           checkpointer (snd res) = (checkpointer h)(tid \<mapsto> t) \<and>
           slot_messages (Some t) = Inr (fst res) \<and>
           (\<exists>md. metadata t = PDict md \<and> map_of md ''writes'' \<noteq> None)"
proof -
  from assms obtain tid prior new reply cv cv' ck md where
    tid: "thread_id cfg = Inr tid" and
    prior: "slot_messages (checkpointer h tid) = Inr prior" and
    new: "input_messages e inp = Inr new" and
    reply: "call_model e (prior @ new) = Inr reply" and
    cv: "getitem (checkpoint (bookkeeping e (checkpointer h tid))) ''channel_values'' = Inr cv" and
    cv': "setitem cv ''messages'' (PList (prior @ new @ [reply])) = Inr cv'" and
    ck: "setitem (checkpoint (bookkeeping e (checkpointer h tid))) ''channel_values'' cv' = Inr ck" and
    md: "setitem (metadata (bookkeeping e (checkpointer h tid))) ''writes''
           (PDict [(''model'', PDict [(''messages'', reply)])]) = Inr md" and
    res: "res = (prior @ new @ [reply],
                 h\<lparr>checkpointer := (checkpointer h)(tid \<mapsto>
                     (bookkeeping e (checkpointer h tid))\<lparr>checkpoint := ck, metadata := md\<rparr>)\<rparr>)"
    by (auto simp: invoke_def and_then_eq_Inr Let_def)
  from reply obtain prompt answer where
    ans: "chat_completion e prompt = Inr answer" and r: "reply = PMsg AIMessage (PStr answer)"
    by (auto simp: call_model_def and_then_eq_Inr)
  from cv' obtain cvl where cvl: "cv = PDict cvl"
    by (cases cv) auto
  from ck obtain ckl where ckl: "checkpoint (bookkeeping e (checkpointer h tid)) = PDict ckl"
    by (cases "checkpoint (bookkeeping e (checkpointer h tid))") auto
  from md obtain mdl where mdl: "metadata (bookkeeping e (checkpointer h tid)) = PDict mdl"
    by (cases "metadata (bookkeeping e (checkpointer h tid))") auto
  let ?t = "(bookkeeping e (checkpointer h tid))\<lparr>checkpoint := ck, metadata := md\<rparr>"
  have slot: "slot_messages (Some ?t) = Inr (fst res)"
    using cv' ck cvl ckl res by (auto simp: slot_messages_def update_conv')
  have wr: "\<exists>m. metadata ?t = PDict m \<and> map_of m ''writes'' \<noteq> None"
    using md mdl by (auto simp: update_conv')
  show ?thesis
    using tid prior new ans r res slot wr by auto
qed

lemma snapshot_of_slot:
  assumes "history_snapshot h graph_config = Inr hist"
  shows "\<exists>t ms pl. checkpointer h (PStr ''1'') = Some t \<and>
           slot_messages (Some t) = Inr ms \<and> map_err content ms = Inr pl \<and>
           getitem hist ''prompt_list'' = Inr (PList pl)"
  using assms
  by (auto simp: history_snapshot_def get_tuple_def and_then_eq_Inr slot_messages_def
           split: option.splits)

lemma main_Inr:
  assumes "main e payload = Inr r"
  shows "\<exists>res hist. restore_and_invoke e payload = Inr res \<and>
           history_snapshot (snd res) graph_config = Inr hist \<and>
           response_text e (fst res) = Inr (response r) \<and> history r = hist"
  using assms
  by (auto simp: main_def post_processing_def and_then_eq_Inr unhandled_eq_Inr split: sum.splits)

lemma restore_and_invoke_Inr:
  assumes "restore_and_invoke e payload = Inr res"
  shows "\<exists>h inp. getitem payload ''human_input'' = Inr inp \<and>
           invoke e h inp graph_config = Inr res \<and>
           (init_state_graph e PNone = Inr h \<and> contains payload ''history'' = Inr False \<or>
            (\<exists>hist. getitem payload ''history'' = Inr hist \<and> init_state_graph e hist = Inr h))"
  using assms
  by (auto simp: restore_and_invoke_def and_then_eq_Inr unhandled_eq_Inr
           split: sum.splits if_splits)

lemma restore_and_invoke_Inl:
  "restore_and_invoke e payload = Inl f \<Longrightarrow> http_status f = 400 \<or> http_status f = 500"
  by (auto simp: restore_and_invoke_def split: sum.splits if_splits dest: unhandled_status)

lemma main_Inl:
  "main e payload = Inl f \<Longrightarrow> http_status f = 400 \<or> http_status f = 500"
  by (auto simp: main_def split: sum.splits dest: unhandled_status restore_and_invoke_Inl)


lemma last_item_nonempty: "xs \<noteq> [] \<Longrightarrow> last_item xs = Inr (last xs)"
  by (cases xs) (simp_all add: last_item_def)

section \<open>What a successful request went through\<close>

lemma main_prompt_list:
  assumes "main e payload = Inr r"
  shows "\<exists>inp new cs pre answer prompt.
      getitem payload ''human_input'' = Inr inp \<and>
      input_messages e inp = Inr new \<and> map_err content new = Inr cs \<and>
      chat_completion e prompt = Inr answer \<and>
      response_text e [PMsg AIMessage (PStr answer)] = Inr (response r) \<and>
      getitem (history r) ''prompt_list'' = Inr (PList (pre @ cs @ [PStr answer]))"
proof -
  from main_Inr [OF assms] obtain res hist where
    rai: "restore_and_invoke e payload = Inr res" and
    snap: "history_snapshot (snd res) graph_config = Inr hist" and
    resp: "response_text e (fst res) = Inr (response r)" and
    hist: "history r = hist"
    by blast
  from restore_and_invoke_Inr [OF rai] obtain h inp where
    inp: "getitem payload ''human_input'' = Inr inp" and
    inv: "invoke e h inp graph_config = Inr res"
    by blast
  from invoke_Inr [OF inv] obtain prior new prompt answer t where
    new: "input_messages e inp = Inr new" and
    ans: "chat_completion e prompt = Inr answer" and
    msgs: "fst res = prior @ new @ [PMsg AIMessage (PStr answer)]" and
    store: "checkpointer (snd res) = (checkpointer h)(PStr ''1'' \<mapsto> t)" and
    slot: "slot_messages (Some t) = Inr (fst res)"
    by auto
  from snapshot_of_slot [OF snap] store slot obtain pl where
    pl: "map_err content (fst res) = Inr pl" and
    hpl: "getitem hist ''prompt_list'' = Inr (PList pl)"
    by auto
  from pl msgs obtain pre cs where
    cs: "map_err content new = Inr cs" and pl_eq: "pl = pre @ cs @ [PStr answer]"
    by (auto simp: map_err_append split: sum.splits)
  have "response_text e [PMsg AIMessage (PStr answer)] = Inr (response r)"
  proof -
    have "fst res = (prior @ new) @ [PMsg AIMessage (PStr answer)]"
      using msgs by simp
    with resp have "response r = drop 82 (pretty_repr e (PMsg AIMessage (PStr answer)))"
      by (simp add: response_text_def last_item_nonempty)
    then show ?thesis
      by (simp add: response_text_def last_item_def)
  qed
  then show ?thesis
    using inp new cs ans hpl pl_eq hist by blast
qed

lemmas run_defs = main_def restore_and_invoke_def init_state_graph_def invoke_def
      post_processing_def history_snapshot_def response_text_def last_item_def
      slot_messages_def input_messages_def call_model_def pre_processing_def
      get_tuple_def put_def unhandled_def example_env_def title_line_def example_history_def Let_def

lemma main_hello:
  "main example_env (PDict [(''human_input'', PStr ''Hello'')]) =
     Inr \<lparr>response = ''Greetings, earthling.'', history = example_history\<rparr>"
  by (simp add: run_defs)

lemma restore_and_invoke_hello:
  "restore_and_invoke example_env (PDict [(''human_input'', PStr ''Hello'')]) =
     Inr (example_turns, example_handle)"
  by (simp add: run_defs example_turns_def example_handle_def)

section \<open>The request guard\<close>

lemma main_no_payload: "\<not> truthy payload \<Longrightarrow> main e payload = Inl (HTTPException 400)"
  by (simp add: main_def restore_and_invoke_def)


text \<open>
  A list or a string can hold \<^verbatim>\<open>human_input\<close> without having it as a key: the guard lets
  the payload pass, a state graph is built, and \<^verbatim>\<open>payload['human_input']\<close> raises.
\<close>

lemma main_list_payload:
  "main e (PList [PStr ''human_input'']) = Inl (Unhandled TypeError)"
  by (simp add: main_def restore_and_invoke_def init_state_graph_def unhandled_def)

text \<open>
  C3 (where the code departs). The guard answers a payload that is not true, and a
  dictionary without the key \<^verbatim>\<open>human_input\<close>, with status 400 before anything is built.
  At the JSON body \<^verbatim>\<open>5\<close>, which has no key either, the guard itself raises:
  \<^verbatim>\<open>'human_input' in 5\<close> is a \<^verbatim>\<open>TypeError\<close>, and the answer is status 500.
\<close>

theorem main_number_payload:
  "main e (PInt 5) = Inl (Unhandled TypeError) \<and> http_status (Unhandled TypeError) = 500"
  by (simp add: main_def restore_and_invoke_def)

section \<open>The response text\<close>

text \<open>The answer of the pipeline ends with the reply, so it has a newest message.\<close>

lemma invoke_nonempty: "invoke e h inp cfg = Inr res \<Longrightarrow> fst res \<noteq> []"
  using invoke_Inr [of e h inp cfg res] by auto

text \<open>
  C10. Computing the response of a message list that has a newest message never fails: it is
  the pretty-printed newest message without its first 82 characters, and the empty string
  when the pretty-printed form has 82 characters or fewer.
\<close>

theorem response_text_total:
  "llm_response \<noteq> [] \<Longrightarrow>
     response_text e llm_response = Inr (drop 82 (pretty_repr e (last llm_response))) \<and>
     (length (pretty_repr e (last llm_response)) \<le> 82 \<longrightarrow> response_text e llm_response = Inr [])"
  by (cases llm_response) (simp_all add: response_text_def last_item_def)

theorem response_text_total_witness:
  "[PMsg AIMessage (PStr [])] \<noteq> [] \<and>
   response_text example_env [PMsg AIMessage (PStr [])] = Inr [] \<and>
   length (pretty_repr example_env (last [PMsg AIMessage (PStr [])])) \<le> 82"
  using response_text_total [of "[PMsg AIMessage (PStr [])]" example_env]
  by (simp add: example_env_def title_line_def)

section \<open>Restoration\<close>

lemma unhandled_and_then:
  "(case unhandled m of Inl f \<Rightarrow> Inl f | Inr r \<Rightarrow> unhandled (g r)) = unhandled (and_then m g)"
  by (cases m) (simp_all add: unhandled_def)

lemma main_dict:
  assumes "map_of kvs ''human_input'' = Some inp"
  shows "main e (PDict kvs) =
     unhandled (and_then (case map_of kvs ''history'' of
                            None \<Rightarrow> init_state_graph e PNone
                          | Some hist \<Rightarrow> init_state_graph e hist) (\<lambda>h.
                and_then (invoke e h inp graph_config) (\<lambda>r.
                  post_processing e (fst r) (snd r) graph_config)))"
proof -
  have ne: "kvs \<noteq> []" using assms by auto
  show ?thesis
  proof (cases "map_of kvs ''history''")
    case None
    with assms ne show ?thesis
      by (cases "init_state_graph e PNone")
         (simp_all add: main_def restore_and_invoke_def unhandled_and_then)
  next
    case (Some hist)
    with assms ne show ?thesis
      by (cases "init_state_graph e hist")
         (simp_all add: main_def restore_and_invoke_def unhandled_and_then)
  qed
qed


lemma init_state_graph_None [simp]: "init_state_graph e PNone = Inr \<lparr>checkpointer = Map.empty\<rparr>"
  by (simp add: init_state_graph_def)

lemma init_state_graph_Inr:
  assumes "init_state_graph e hist = Inr h" and "truthy hist"
  shows "\<exists>pl prompts msgs cfg tid t.
           getitem hist ''prompt_list'' = Inr pl \<and> iterate pl = Inr prompts \<and>
           message_objects e 0 prompts = Inr msgs \<and>
           getitem hist ''config'' = Inr cfg \<and> thread_id cfg = Inr tid \<and>
           checkpointer h = [tid \<mapsto> t] \<and> config t = cfg \<and>
           slot_messages (Some t) = Inr msgs"
proof -
  from assms obtain pl prompts msgs ck cv cv' ck' cfg md nv m where
    a: "getitem hist ''prompt_list'' = Inr pl" "iterate pl = Inr prompts"
       "message_objects e 0 prompts = Inr msgs" "getitem hist ''checkpoint'' = Inr ck"
       "getitem ck ''channel_values'' = Inr cv" "setitem cv ''messages'' (PList msgs) = Inr cv'"
       "setitem ck ''channel_values'' cv' = Inr ck'" "getitem hist ''config'' = Inr cfg"
       "getitem hist ''metadata'' = Inr md" "getitem hist ''new_version'' = Inr nv"
       "put Map.empty cfg ck' md nv = Inr m" "h = \<lparr>checkpointer = m\<rparr>"
    by (auto simp: init_state_graph_def and_then_eq_Inr)
  from a(11) obtain tid where
    tid: "thread_id cfg = Inr tid" and
    m: "m = [tid \<mapsto> \<lparr>config = cfg, checkpoint = ck', metadata = md, new_version = nv\<rparr>]"
    by (auto simp: put_def and_then_eq_Inr)
  from a(6) obtain cvl where cvl: "cv = PDict cvl" by (cases cv) auto
  from a(7) obtain ckl where ckl: "ck = PDict ckl" by (cases ck) auto
  have "slot_messages (Some \<lparr>config = cfg, checkpoint = ck', metadata = md, new_version = nv\<rparr>) = Inr msgs"
    using a(6,7) cvl ckl by (auto simp: slot_messages_def update_conv')
  with a tid m show ?thesis by auto
qed

lemma init_state_graph_no_prompt_list:
  "hkvs \<noteq> [] \<Longrightarrow> map_of hkvs ''prompt_list'' = None \<Longrightarrow> init_state_graph e (PDict hkvs) = Inl KeyError"
  by (simp add: init_state_graph_def)

lemma init_state_graph_no_checkpoint:
  "map_of hkvs ''prompt_list'' = Some (PList ps) \<Longrightarrow> message_objects e 0 ps = Inr ms \<Longrightarrow>
   map_of hkvs ''checkpoint'' = None \<Longrightarrow> init_state_graph e (PDict hkvs) = Inl KeyError"
proof -
  assume a: "map_of hkvs ''prompt_list'' = Some (PList ps)" "message_objects e 0 ps = Inr ms"
            "map_of hkvs ''checkpoint'' = None"
  then have "hkvs \<noteq> []" by auto
  with a show ?thesis by (simp add: init_state_graph_def)
qed

lemma init_state_graph_number_prompt_list:
  "map_of hkvs ''prompt_list'' = Some (PInt n) \<Longrightarrow> init_state_graph e (PDict hkvs) = Inl TypeError"
proof -
  assume a: "map_of hkvs ''prompt_list'' = Some (PInt n)"
  then have "hkvs \<noteq> []" by auto
  with a show ?thesis by (simp add: init_state_graph_def)
qed

lemma string_prompt_list_is_restored:
  "init_state_graph e (PDict [(''config'', graph_config),
            (''checkpoint'', PDict [(''channel_values'', PDict [])]),
            (''prompt_list'', PStr ''Hi''),
            (''metadata'', PDict []),
            (''new_version'', PNone)])
   = Inr \<lparr>checkpointer = [PStr ''1'' \<mapsto>
        \<lparr>config = graph_config,
         checkpoint = PDict [(''channel_values'', PDict [(''messages'',
            PList [PMsg HumanMessage (PStr ''H''), PMsg AIMessage (PStr ''i'')])])],
         metadata = PDict [], new_version = PNone\<rparr>]\<rparr>"
  by (simp add: init_state_graph_def put_def)

text \<open>
  C4 (as the code has it). Restoration validates nothing and knows no error of its own:
  when restoring the history of a request raises (a \<^verbatim>\<open>KeyError\<close> for a history without
  \<^verbatim>\<open>prompt_list\<close> or \<^verbatim>\<open>checkpoint\<close>, a \<^verbatim>\<open>TypeError\<close> for a \<^verbatim>\<open>prompt_list\<close> that is a
  number), nobody catches the exception and the request is answered with status 500.
\<close>

theorem restoration_failure_is_500:
  assumes "map_of kvs ''human_input'' = Some inp"
      and "map_of kvs ''history'' = Some hist"
      and "init_state_graph e hist = Inl x"
  shows "main e (PDict kvs) = Inl (Unhandled x) \<and> http_status (Unhandled x) = 500"
  using assms by (simp add: main_dict unhandled_def)

theorem restoration_failure_is_500_witness:
  "main example_env (PDict [(''human_input'', PStr ''Hello''),
                            (''history'', PDict [(''config'', graph_config)])])
     = Inl (Unhandled KeyError) \<and> http_status (Unhandled KeyError) = 500"
proof -
  have "init_state_graph example_env (PDict [(''config'', graph_config)]) = Inl KeyError"
    by (simp add: init_state_graph_def)
  from restoration_failure_is_500 [OF _ _ this, of "[(''human_input'', PStr ''Hello''),
                            (''history'', PDict [(''config'', graph_config)])]" "PStr ''Hello''"]
  show ?thesis by simp
qed

text \<open>
  A history that has only a \<^verbatim>\<open>config\<close> is structurally invalid; the request is answered
  with status 500, not 400.
\<close>

theorem malformed_history_counterexample:
  "main example_env (PDict [(''human_input'', PStr ''Hello''),
                            (''history'', PDict [(''config'', graph_config)])])
     = Inl (Unhandled KeyError) \<and> http_status (Unhandled KeyError) \<noteq> 400"
  by (simp add: main_dict init_state_graph_def unhandled_def)

section \<open>The session slot\<close>

text \<open>
  C8 (as the code has it). A request writes the slot of the constant session id \<^verbatim>\<open>"1"\<close>
  in the store that \<open>init_state_graph\<close> made for this request: the store at the end is that
  store (empty when the request has no history) with the slot \<^verbatim>\<open>"1"\<close> overwritten by a
  tuple that holds the turns of the session.
\<close>

theorem session_slot_per_request:
  assumes "restore_and_invoke e payload = Inr res"
  shows "\<exists>h t. (contains payload ''history'' = Inr False \<and> h = \<lparr>checkpointer = Map.empty\<rparr> \<or>
                 (\<exists>hist. getitem payload ''history'' = Inr hist \<and> init_state_graph e hist = Inr h)) \<and>
               checkpointer (snd res) = (checkpointer h)(PStr ''1'' \<mapsto> t) \<and>
               slot_messages (Some t) = Inr (fst res)"
proof -
  from restore_and_invoke_Inr [OF assms] obtain h inp where
    inv: "invoke e h inp graph_config = Inr res" and
    h: "init_state_graph e PNone = Inr h \<and> contains payload ''history'' = Inr False \<or>
        (\<exists>hist. getitem payload ''history'' = Inr hist \<and> init_state_graph e hist = Inr h)"
    by blast
  from invoke_Inr [OF inv] obtain t where
    "checkpointer (snd res) = (checkpointer h)(PStr ''1'' \<mapsto> t)"
    "slot_messages (Some t) = Inr (fst res)"
    by auto
  with h show ?thesis by auto
qed

theorem session_slot_per_request_witness:
  "restore_and_invoke example_env (PDict [(''human_input'', PStr ''Hello'')]) =
     Inr (example_turns, example_handle) \<and>
   contains (PDict [(''human_input'', PStr ''Hello'')]) ''history'' = Inr False \<and>
   (\<exists>t. checkpointer example_handle = [PStr ''1'' \<mapsto> t] \<and>
        slot_messages (Some t) = Inr example_turns)"
proof -
  from session_slot_per_request [OF restore_and_invoke_hello] obtain h t where
    "checkpointer example_handle = (checkpointer h)(PStr ''1'' \<mapsto> t)"
    "slot_messages (Some t) = Inr example_turns"
    "h = \<lparr>checkpointer = Map.empty\<rparr>"
    by auto
  with restore_and_invoke_hello show ?thesis by auto
qed

text \<open>
  Two requests without a history, one after the other: the second reply has the two turns
  of the second request only, so the slot that the first request wrote did not persist.
\<close>

theorem shared_slot_counterexample:
  "serve example_env [PDict [(''human_input'', PStr ''Hello'')],
                      PDict [(''human_input'', PStr ''And you?'')]] =
     [Inr \<lparr>response = ''Greetings, earthling.'', history = example_history\<rparr>,
      Inr \<lparr>response = ''Greetings, earthling.'',
           history = PDict [(''config'', graph_config),
             (''checkpoint'', PDict [(''v'', PInt 1), (''channel_values'', PDict [])]),
             (''prompt_list'', PList [PStr ''And you?'', PStr ''Greetings, earthling.'']),
             (''metadata'', PDict [(''step'', PInt 1)]),
             (''new_version'', PNone)]\<rparr>]"
  by (simp add: serve_def main_hello) (simp add: run_defs)

section \<open>Decoding a prompt list\<close>

lemma new_message_role: "new_message e r v = Inr m \<Longrightarrow> role_of m = Some r"
  by (cases v) (auto split: sum.splits)

lemma message_objects_roles:
  "message_objects e idx prompts = Inr ms \<Longrightarrow>
     length ms = length prompts \<and>
     (\<forall>i<length ms. role_of (ms ! i) = Some (if (idx + i) mod 2 = 0 then HumanMessage else AIMessage))"
proof (induction prompts arbitrary: idx ms)
  case Nil
  then show ?case by simp
next
  case (Cons p ps)
  from Cons.prems obtain m ms' where
    m: "new_message e (if idx mod 2 = 0 then HumanMessage else AIMessage) p = Inr m" and
    ms': "message_objects e (Suc idx) ps = Inr ms'" and
    ms: "ms = m # ms'"
    by (auto split: sum.splits)
  from Cons.IH [OF ms'] have
    len: "length ms' = length ps" and
    ih: "\<forall>i<length ms'. role_of (ms' ! i) = Some (if (Suc idx + i) mod 2 = 0 then HumanMessage else AIMessage)"
    by simp_all
  have "role_of (ms ! i) = Some (if (idx + i) mod 2 = 0 then HumanMessage else AIMessage)"
    if "i < length ms" for i
  proof (cases i)
    case 0
    with new_message_role [OF m] ms show ?thesis by simp
  next
    case (Suc j)
    with that ms have "j < length ms'" by simp
    with ih Suc ms show ?thesis by simp
  qed
  with len ms show ?case by simp
qed

lemma message_objects_parity:
  "message_objects e 0 prompts = Inr ms \<Longrightarrow>
     length ms = length prompts \<and>
     (\<forall>i<length ms. role_of (ms ! i) = Some (if even i then HumanMessage else AIMessage))"
  using message_objects_roles [of e 0 prompts ms] by (simp add: even_iff_mod_2_eq_zero)

lemma prior_turns:
  assumes h: "init_state_graph e PNone = Inr h \<and> contains payload ''history'' = Inr False \<or>
              (\<exists>hist. getitem payload ''history'' = Inr hist \<and> init_state_graph e hist = Inr h)"
      and prior: "slot_messages (checkpointer h (PStr ''1'')) = Inr prior"
      and ev: "even (length (restored_prompts payload))"
  shows "even (length prior) \<and>
         (\<forall>i<length prior. role_of (prior ! i) = Some (if even i then HumanMessage else AIMessage))"
proof -
  have empty: ?thesis if "h = \<lparr>checkpointer = Map.empty\<rparr>"
    using that prior by (simp add: slot_messages_def)
  from h show ?thesis
  proof
    assume "init_state_graph e PNone = Inr h \<and> contains payload ''history'' = Inr False"
    then show ?thesis using empty by simp
  next
    assume "\<exists>hist. getitem payload ''history'' = Inr hist \<and> init_state_graph e hist = Inr h"
    then obtain hist where
      hist: "getitem payload ''history'' = Inr hist" and init: "init_state_graph e hist = Inr h"
      by blast
    show ?thesis
    proof (cases "truthy hist")
      case False
      with init show ?thesis using empty by (simp add: init_state_graph_def)
    next
      case True
      from init_state_graph_Inr [OF init True] obtain pl prompts msgs tid t where
        pl: "getitem hist ''prompt_list'' = Inr pl" "iterate pl = Inr prompts" and
        dec: "message_objects e 0 prompts = Inr msgs" and
        store: "checkpointer h = [tid \<mapsto> t]" and
        slot: "slot_messages (Some t) = Inr msgs"
        by blast
      from hist True pl have rp: "restored_prompts payload = prompts"
        by (simp add: restored_prompts_def)
      show ?thesis
      proof (cases "tid = PStr ''1''")
        case True
        with store slot prior have "prior = msgs" by simp
        with message_objects_parity [OF dec] rp ev show ?thesis by simp
      next
        case False
        with store prior show ?thesis by (simp add: slot_messages_def)
      qed
    qed
  qed
qed

section \<open>Alternating turns\<close>

lemma alternating_decode:
  "alternating idx ms \<Longrightarrow> \<exists>cs. map_err content ms = Inr cs \<and> message_objects e idx cs = Inr ms"
proof (induction ms arbitrary: idx)
  case Nil
  then show ?case by simp
next
  case (Cons m ms)
  from Cons.prems obtain r s where m: "m = PMsg r (PStr s)"
    and r: "r = (if idx mod 2 = 0 then HumanMessage else AIMessage)"
    and rest: "alternating (Suc idx) ms"
    by (auto split: pyval.splits)
  from Cons.IH [OF rest] obtain cs where
    "map_err content ms = Inr cs" "message_objects e (Suc idx) cs = Inr ms"
    by blast
  with m r show ?case by auto
qed

section \<open>The instance with the framework's shapes at work\<close>

lemmas framework_defs = main_def restore_and_invoke_def init_state_graph_def invoke_def
      post_processing_def history_snapshot_def response_text_def last_item_def
      slot_messages_def input_messages_def call_model_def pre_processing_def
      get_tuple_def put_def unhandled_def thread_id_def graph_config_def
      framework_env_def title_line_def rstrip_def blank_def
      run_config_def run_checkpoint_def run_metadata_def human_turn_def Let_def

lemma main_framework_hello:
  "main framework_env (PDict [(''human_input'', PStr ''Hello'')]) =
     Inr \<lparr>response = ''Greetings, earthling.'', history = first_history\<rparr>"
  by (simp add: framework_defs first_history_def)

lemma restore_and_invoke_framework_hello:
  "restore_and_invoke framework_env (PDict [(''human_input'', PStr ''Hello'')]) =
     Inr (example_turns, first_handle)"
  by (simp add: framework_defs first_handle_def example_turns_def)

lemma snapshot_first_handle: "history_snapshot first_handle graph_config = Inr first_history"
  by (simp add: framework_defs first_handle_def first_history_def example_turns_def)

lemma main_framework_second:
  "main framework_env (PDict [(''human_input'', PStr ''And you?''), (''history'', first_history)]) =
     Inr \<lparr>response = ''Greetings, earthling.'',
          history = later_history [PStr ''Hello'', PStr ''Greetings, earthling.'',
                                   PStr ''And you?'', PStr ''Greetings, earthling.'']\<rparr>"
  by (simp add: framework_defs first_history_def later_history_def)

section \<open>Failing requests\<close>




text \<open>The kinds of failure behind the guard: each is an exception that nobody catches.\<close>

lemma call_model_trimming_failure:
  "trim_messages e trimmer ms = Inl x \<Longrightarrow> call_model e ms = Inl x"
  by (simp add: call_model_def pre_processing_def)

lemma call_model_remote_failure:
  "trim_messages e trimmer ms = Inr kept \<Longrightarrow>
   chat_completion e (PMsg SystemMessage (PStr system_prompt) # kept) = Inl x \<Longrightarrow>
   call_model e ms = Inl x"
  by (simp add: call_model_def pre_processing_def)

lemma main_inference_failure:
  assumes "map_of kvs ''human_input'' = Some (PStr s)" and "map_of kvs ''history'' = None"
      and "call_model e [PMsg HumanMessage (PStr s)] = Inl x"
  shows "main e (PDict kvs) = Inl (Unhandled x) \<and> http_status (Unhandled x) = 500"
  using assms
  by (simp add: main_dict invoke_def slot_messages_def input_messages_def unhandled_def)




section \<open>The response and the reply text\<close>

text \<open>
  C6 (as the code has it). On a successful request the response is the pretty-printed form
  of the newest reply without its first 82 characters, whatever these are; the text of that
  reply is what the remote model returned and the last entry of the returned prompt list.
  Where the printed form is a heading of 82 characters before the text, the response is
  the text.
\<close>

theorem response_is_sliced_print:
  assumes "main e payload = Inr r"
  shows "\<exists>prompt answer pl.
           chat_completion e prompt = Inr answer \<and>
           getitem (history r) ''prompt_list'' = Inr (PList pl) \<and>
           pl \<noteq> [] \<and> last pl = PStr answer \<and>
           response r = drop 82 (pretty_repr e (PMsg AIMessage (PStr answer))) \<and>
           (\<forall>header. pretty_repr e (PMsg AIMessage (PStr answer)) = header @ answer \<and>
                     length header = 82 \<longrightarrow> response r = answer)"
proof -
  from main_prompt_list [OF assms] obtain cs pre answer prompt where
    ans: "chat_completion e prompt = Inr answer" and
    resp: "response_text e [PMsg AIMessage (PStr answer)] = Inr (response r)" and
    pl: "getitem (history r) ''prompt_list'' = Inr (PList (pre @ cs @ [PStr answer]))"
    by blast
  from resp have sl: "response r = drop 82 (pretty_repr e (PMsg AIMessage (PStr answer)))"
    by (simp add: response_text_def last_item_def)
  then have "\<forall>header. pretty_repr e (PMsg AIMessage (PStr answer)) = header @ answer \<and>
                     length header = 82 \<longrightarrow> response r = answer"
    by simp
  with ans pl sl show ?thesis by auto
qed

theorem response_is_sliced_print_witness:
  "main framework_env (PDict [(''human_input'', PStr ''Hello'')]) =
     Inr \<lparr>response = ''Greetings, earthling.'', history = first_history\<rparr> \<and>
   (\<exists>prompt answer pl.
      chat_completion framework_env prompt = Inr answer \<and>
      getitem first_history ''prompt_list'' = Inr (PList pl) \<and>
      pl \<noteq> [] \<and> last pl = PStr answer \<and>
      ''Greetings, earthling.'' = drop 82 (pretty_repr framework_env (PMsg AIMessage (PStr answer))))"
  using response_is_sliced_print [OF main_framework_hello] main_framework_hello
  by auto

text \<open>
  The remote model answers \<^verbatim>\<open>"Hi "\<close>. The printer strips the blank at the end, and the
  response is \<^verbatim>\<open>"Hi"\<close>: a character of the reply text is gone.
\<close>

theorem reply_text_counterexample:
  "main trailing_blank_env (PDict [(''human_input'', PStr ''Hello'')]) =
     Inr \<lparr>response = ''Hi'',
          history = PDict [(''config'', run_config ''1'' ''1ef8a2c4-7d10-6b32-8001-3c5e9f0a1b22''),
            (''checkpoint'', run_checkpoint ''1ef8a2c4-7d10-6b32-8001-3c5e9f0a1b22''),
            (''prompt_list'', PList [PStr ''Hello'', PStr ''Hi '']),
            (''metadata'', run_metadata),
            (''new_version'', run_config ''1'' ''1ef8a2c4-7d0a-6e18-8000-3c5e9f0a1b22'')]\<rparr> \<and>
   ''Hi'' \<noteq> ''Hi ''"
  by (simp add: trailing_blank_env_def framework_defs)

section \<open>A history under another thread id\<close>




text \<open>Under thread id \<^verbatim>\<open>"1"\<close> the decoded turns are in the slot that the pipeline reads.\<close>

lemma own_thread_history_visible:
  assumes "truthy hist" and "init_state_graph e hist = Inr h"
      and "and_then (getitem hist ''config'') thread_id = Inr (PStr ''1'')"
  shows "\<exists>pl prompts msgs. getitem hist ''prompt_list'' = Inr pl \<and> iterate pl = Inr prompts \<and>
           message_objects e 0 prompts = Inr msgs \<and>
           slot_messages (checkpointer h (PStr ''1'')) = Inr msgs"
proof -
  from init_state_graph_Inr [OF assms(2,1)] assms(3) obtain pl prompts msgs t where
    "getitem hist ''prompt_list'' = Inr pl" "iterate pl = Inr prompts"
    "message_objects e 0 prompts = Inr msgs"
    "checkpointer h = [PStr ''1'' \<mapsto> t]" "slot_messages (Some t) = Inr msgs"
    by (auto simp: and_then_eq_Inr)
  then show ?thesis by auto
qed

section \<open>Roles by parity\<close>

lemma main_session:
  assumes "main e payload = Inr r"
  shows "\<exists>res h inp prior new answer pl.
           restore_and_invoke e payload = Inr res \<and>
           getitem payload ''human_input'' = Inr inp \<and>
           (init_state_graph e PNone = Inr h \<and> contains payload ''history'' = Inr False \<or>
            (\<exists>hist. getitem payload ''history'' = Inr hist \<and> init_state_graph e hist = Inr h)) \<and>
           slot_messages (checkpointer h (PStr ''1'')) = Inr prior \<and>
           input_messages e inp = Inr new \<and>
           fst res = prior @ new @ [PMsg AIMessage (PStr answer)] \<and>
           map_err content (fst res) = Inr pl \<and>
           getitem (history r) ''prompt_list'' = Inr (PList pl)"
proof -
  from main_Inr [OF assms] obtain res where
    rai: "restore_and_invoke e payload = Inr res" and
    snap: "history_snapshot (snd res) graph_config = Inr (history r)"
    by auto
  from restore_and_invoke_Inr [OF rai] obtain h inp where
    inp: "getitem payload ''human_input'' = Inr inp" and
    inv: "invoke e h inp graph_config = Inr res" and
    h: "init_state_graph e PNone = Inr h \<and> contains payload ''history'' = Inr False \<or>
        (\<exists>hist. getitem payload ''history'' = Inr hist \<and> init_state_graph e hist = Inr h)"
    by auto
  from invoke_Inr [OF inv] obtain prior new answer t where
    prior: "slot_messages (checkpointer h (PStr ''1'')) = Inr prior" and
    new: "input_messages e inp = Inr new" and
    turns: "fst res = prior @ new @ [PMsg AIMessage (PStr answer)]" and
    store: "checkpointer (snd res) = (checkpointer h)(PStr ''1'' \<mapsto> t)" and
    slot: "slot_messages (Some t) = Inr (fst res)"
    by auto
  from snapshot_of_slot [OF snap] store slot obtain pl where
    "map_err content (fst res) = Inr pl"
    "getitem (history r) ''prompt_list'' = Inr (PList pl)"
    by auto
  with rai inp h prior new turns show ?thesis by blast
qed

text \<open>
  C2 (as the code has it). Decoding any prompt list gives as many messages, a Human
  message at every even index and an Assistant message at every odd index. The prompt list
  that a request returns holds the texts of the session's turns in order. When the human
  input is a string and the restored prompt list has even length (none restored is length
  0), the turn at index \<open>i\<close> is Human for even \<open>i\<close> and Assistant for odd \<open>i\<close>, and the
  returned prompt list has even length again.
\<close>

theorem role_parity:
  "(message_objects e 0 prompts = Inr ms \<longrightarrow>
      length ms = length prompts \<and>
      (\<forall>i<length ms. role_of (ms ! i) = Some (if even i then HumanMessage else AIMessage))) \<and>
   (main e payload = Inr r \<longrightarrow>
      (\<exists>turns pl. session_turns e payload = Inr turns \<and>
         getitem (history r) ''prompt_list'' = Inr (PList pl) \<and>
         map_err content turns = Inr pl \<and>
         (getitem payload ''human_input'' = Inr (PStr s) \<and>
          even (length (restored_prompts payload)) \<longrightarrow>
            even (length pl) \<and>
            (\<forall>i<length turns. role_of (turns ! i) =
                                 Some (if even i then HumanMessage else AIMessage)))))"
proof (intro conjI impI)
  assume "message_objects e 0 prompts = Inr ms"
  from message_objects_parity [OF this]
  show "length ms = length prompts" and
       "\<forall>i<length ms. role_of (ms ! i) = Some (if even i then HumanMessage else AIMessage)"
    by simp_all
next
  assume ok: "main e payload = Inr r"
  from main_session [OF ok] obtain res h inp prior new answer pl where
    rai: "restore_and_invoke e payload = Inr res" and
    inp: "getitem payload ''human_input'' = Inr inp" and
    h: "init_state_graph e PNone = Inr h \<and> contains payload ''history'' = Inr False \<or>
        (\<exists>hist. getitem payload ''history'' = Inr hist \<and> init_state_graph e hist = Inr h)" and
    prior: "slot_messages (checkpointer h (PStr ''1'')) = Inr prior" and
    new: "input_messages e inp = Inr new" and
    turns: "fst res = prior @ new @ [PMsg AIMessage (PStr answer)]" and
    pl: "map_err content (fst res) = Inr pl" and
    hpl: "getitem (history r) ''prompt_list'' = Inr (PList pl)"
    by blast
  have par: "even (length pl) \<and>
             (\<forall>i<length (fst res). role_of (fst res ! i) =
                                     Some (if even i then HumanMessage else AIMessage))"
    if str: "getitem payload ''human_input'' = Inr (PStr s)"
    and ev0: "even (length (restored_prompts payload))"
  proof -
    from str inp new have n: "new = [PMsg HumanMessage (PStr s)]"
      by (simp add: input_messages_def)
    from prior_turns [OF h prior ev0] have
      ev: "even (length prior)" and
      pr: "\<forall>i<length prior. role_of (prior ! i) = Some (if even i then HumanMessage else AIMessage)"
      by simp_all
    have t2: "fst res = prior @ [PMsg HumanMessage (PStr s), PMsg AIMessage (PStr answer)]"
      using turns n by simp
    have roles: "role_of (fst res ! i) = Some (if even i then HumanMessage else AIMessage)"
      if lt: "i < length (fst res)" for i
    proof -
      consider "i < length prior" | "i = length prior" | "i = Suc (length prior)"
        using lt t2 by force
      then show ?thesis
      proof cases
        case 1
        with pr t2 show ?thesis by (simp add: nth_append)
      next
        case 2
        with ev t2 show ?thesis by (simp add: nth_append)
      next
        case 3
        with ev t2 show ?thesis by (simp add: nth_append)
      qed
    qed
    from map_err_content_msgs [OF pl] t2 ev have "even (length pl)" by simp
    with roles show ?thesis by blast
  qed
  from rai have st: "session_turns e payload = Inr (fst res)"
    by (simp add: session_turns_def)
  from st hpl pl par
  show "\<exists>turns pl. session_turns e payload = Inr turns \<and>
         getitem (history r) ''prompt_list'' = Inr (PList pl) \<and>
         map_err content turns = Inr pl \<and>
         (getitem payload ''human_input'' = Inr (PStr s) \<and>
          even (length (restored_prompts payload)) \<longrightarrow>
            even (length pl) \<and>
            (\<forall>i<length turns. role_of (turns ! i) =
                                 Some (if even i then HumanMessage else AIMessage)))"
    by blast
qed

theorem role_parity_witness:
  "message_objects framework_env 0 [PStr ''Hello'', PStr ''Greetings, earthling.''] = Inr example_turns \<and>
   length example_turns = 2 \<and>
   main framework_env (PDict [(''human_input'', PStr ''And you?''), (''history'', first_history)]) =
     Inr \<lparr>response = ''Greetings, earthling.'',
          history = later_history [PStr ''Hello'', PStr ''Greetings, earthling.'',
                                   PStr ''And you?'', PStr ''Greetings, earthling.'']\<rparr> \<and>
   getitem (PDict [(''human_input'', PStr ''And you?''), (''history'', first_history)]) ''human_input''
     = Inr (PStr ''And you?'') \<and>
   even (length (restored_prompts (PDict [(''human_input'', PStr ''And you?''), (''history'', first_history)]))) \<and>
   (\<exists>turns. session_turns framework_env
        (PDict [(''human_input'', PStr ''And you?''), (''history'', first_history)]) = Inr turns \<and>
      map_err content turns = Inr [PStr ''Hello'', PStr ''Greetings, earthling.'',
                                   PStr ''And you?'', PStr ''Greetings, earthling.''] \<and>
      role_of (turns ! 0) = Some HumanMessage \<and> role_of (turns ! 1) = Some AIMessage \<and>
      role_of (turns ! 2) = Some HumanMessage \<and> role_of (turns ! 3) = Some AIMessage)"
proof -
  let ?p = "PDict [(''human_input'', PStr ''And you?''), (''history'', first_history)]"
  let ?pl = "[PStr ''Hello'', PStr ''Greetings, earthling.'', PStr ''And you?'', PStr ''Greetings, earthling.'']"
  have d: "message_objects framework_env 0 [PStr ''Hello'', PStr ''Greetings, earthling.''] = Inr example_turns"
    by (simp add: example_turns_def)
  have g: "getitem ?p ''human_input'' = Inr (PStr ''And you?'')"
    by simp
  have ev: "even (length (restored_prompts ?p))"
    by (simp add: restored_prompts_def first_history_def)
  have hp: "getitem (later_history ?pl) ''prompt_list'' = Inr (PList ?pl)"
    by (simp add: later_history_def)
  from role_parity [of framework_env "[PStr ''Hello'', PStr ''Greetings, earthling.'']" example_turns
      ?p "\<lparr>response = ''Greetings, earthling.'', history = later_history ?pl\<rparr>" "''And you?''"]
    d g ev main_framework_second hp
  obtain turns where
    t: "session_turns framework_env ?p = Inr turns" and
    pl: "map_err content turns = Inr ?pl" and
    roles: "\<forall>i<length turns. role_of (turns ! i) = Some (if even i then HumanMessage else AIMessage)"
    by auto
  from map_err_content_msgs [OF pl] have lt: "length turns = 4" by simp
  from roles lt have "role_of (turns ! 0) = Some HumanMessage" "role_of (turns ! 1) = Some AIMessage"
    "role_of (turns ! 2) = Some HumanMessage" "role_of (turns ! 3) = Some AIMessage"
    by simp_all
  with d g ev t pl main_framework_second show ?thesis
    by (auto simp: example_turns_def)
qed

text \<open>
  A request with a history of one prompt: the session has a Human turn at index 1, and
  its text is at index 1 of the returned prompt list.
\<close>

theorem role_parity_counterexample:
  "session_turns framework_env
     (PDict [(''human_input'', PStr ''And you?''), (''history'', odd_history)]) =
     Inr [PMsg HumanMessage (PStr ''Hello''), PMsg HumanMessage (PStr ''And you?''),
          PMsg AIMessage (PStr ''Greetings, earthling.'')] \<and>
   main framework_env
     (PDict [(''human_input'', PStr ''And you?''), (''history'', odd_history)]) =
     Inr \<lparr>response = ''Greetings, earthling.'',
          history = later_history [PStr ''Hello'', PStr ''And you?'', PStr ''Greetings, earthling.'']\<rparr> \<and>
   role_of ([PMsg HumanMessage (PStr ''Hello''), PMsg HumanMessage (PStr ''And you?''),
             PMsg AIMessage (PStr ''Greetings, earthling.'')] ! 1) = Some HumanMessage \<and>
   odd (1::nat)"
  by (simp add: session_turns_def framework_defs odd_history_def later_history_def)

text \<open>
  A human input that is a list of two strings, with no history: two Human turns, one
  after the other.
\<close>

lemma list_input_turns:
  "session_turns framework_env (PDict [(''human_input'', PList [PStr ''Hello'', PStr ''You?''])]) =
     Inr [PMsg HumanMessage (PStr ''Hello''), PMsg HumanMessage (PStr ''You?''),
          PMsg AIMessage (PStr ''Greetings, earthling.'')]"
  by (simp add: session_turns_def framework_defs)

section \<open>The decode/encode cycle\<close>

text \<open>
  C1 (as the code has it). Let \<open>hist\<close> be the history that the snapshot makes of a session
  slot under thread id \<^verbatim>\<open>"1"\<close> whose turns alternate Human and Assistant with string texts.
  Its prompt list holds the texts of the turns, decoding it gives the turns back, and
  restoration puts them into the slot again. The snapshot right after restoration fails:
  it deletes \<^verbatim>\<open>metadata['writes']\<close> again, which the history no longer has.
\<close>

theorem restore_snapshot_fails:
  assumes snap: "history_snapshot h graph_config = Inr hist"
      and turns: "slot_messages (checkpointer h (PStr ''1'')) = Inr turns"
      and alt: "alternating 0 turns"
      and tid: "and_then (getitem hist ''config'') thread_id = Inr (PStr ''1'')"
  shows "restore_snapshot e hist = Inl KeyError \<and>
         (\<exists>pl h'. getitem hist ''prompt_list'' = Inr (PList pl) \<and>
            map_err content turns = Inr pl \<and>
            message_objects e 0 pl = Inr turns \<and>
            init_state_graph e hist = Inr h' \<and>
            slot_messages (checkpointer h' (PStr ''1'')) = Inr turns)"
proof -
  from snap obtain t cv ms objs pl cv' ck mds where
    slot: "checkpointer h (PStr ''1'') = Some t" and
    cv: "getitem (checkpoint t) ''channel_values'' = Inr cv" and
    ms: "getitem cv ''messages'' = Inr ms" and
    objs: "iterate ms = Inr objs" and
    pl: "map_err content objs = Inr pl" and
    cv': "delitem cv ''messages'' = Inr cv'" and
    ck: "setitem (checkpoint t) ''channel_values'' cv' = Inr ck" and
    mds: "delitem (metadata t) ''writes'' = Inr mds" and
    hist: "hist = PDict [(''config'', config t), (''checkpoint'', ck),
                         (''prompt_list'', PList pl), (''metadata'', mds),
                         (''new_version'', new_version t)]"
    by (auto simp: history_snapshot_def get_tuple_def and_then_eq_Inr split: option.splits)
  from cv' obtain cvl where cvl: "cv = PDict cvl" and cv'_eq: "cv' = PDict (AList.delete ''messages'' cvl)"
    by (cases cv) (auto split: option.splits)
  from ck obtain ckl where ckl: "checkpoint t = PDict ckl" and
    ck_eq: "ck = PDict (AList.update ''channel_values'' cv' ckl)"
    by (cases "checkpoint t") auto
  from mds obtain mdl where mdl: "metadata t = PDict mdl" and
    mds_eq: "mds = PDict (AList.delete ''writes'' mdl)"
    by (cases "metadata t") (auto split: option.splits)
  from turns slot cv ms objs have t_eq: "objs = turns"
    by (simp add: slot_messages_def)
  from alternating_decode [OF alt, of e] pl t_eq have dec: "message_objects e 0 pl = Inr turns"
    by auto
  from tid hist have tid': "thread_id (config t) = Inr (PStr ''1'')"
    by simp
  let ?cvr = "PDict (AList.update ''messages'' (PList turns) (AList.delete ''messages'' cvl))"
  let ?ckr = "PDict (AList.update ''channel_values'' ?cvr ckl)"
  let ?h' = "\<lparr>checkpointer = [PStr ''1'' \<mapsto>
                   \<lparr>config = config t, checkpoint = ?ckr, metadata = mds,
                    new_version = new_version t\<rparr>]\<rparr>"
  have init: "init_state_graph e hist = Inr ?h'"
    by (simp add: hist init_state_graph_def dec ck_eq cv'_eq update_conv' put_def tid')
  have "history_snapshot ?h' graph_config = Inl KeyError"
    using pl t_eq
    by (simp add: history_snapshot_def get_tuple_def update_conv' mds_eq delete_conv)
  with init have fail: "restore_snapshot e hist = Inl KeyError"
    by (simp add: restore_snapshot_def)
  have sl: "slot_messages (checkpointer ?h' (PStr ''1'')) = Inr turns"
    by (simp add: slot_messages_def update_conv')
  have hp: "getitem hist ''prompt_list'' = Inr (PList pl)"
    by (simp add: hist)
  from fail hp pl t_eq dec init sl show ?thesis by auto
qed

theorem restore_snapshot_fails_witness:
  "history_snapshot first_handle graph_config = Inr first_history \<and>
   slot_messages (checkpointer first_handle (PStr ''1'')) = Inr example_turns \<and>
   alternating 0 example_turns \<and>
   and_then (getitem first_history ''config'') thread_id = Inr (PStr ''1'') \<and>
   restore_snapshot framework_env first_history = Inl KeyError \<and>
   message_objects framework_env 0 [PStr ''Hello'', PStr ''Greetings, earthling.''] = Inr example_turns \<and>
   (\<exists>h'. init_state_graph framework_env first_history = Inr h' \<and>
      slot_messages (checkpointer h' (PStr ''1'')) = Inr example_turns)"
proof -
  have a: "slot_messages (checkpointer first_handle (PStr ''1'')) = Inr example_turns"
    by (simp add: first_handle_def slot_messages_def)
  have b: "alternating 0 example_turns"
    by (simp add: example_turns_def)
  have c: "and_then (getitem first_history ''config'') thread_id = Inr (PStr ''1'')"
    by (simp add: first_history_def run_config_def thread_id_def)
  have d: "getitem first_history ''prompt_list'' = Inr (PList [PStr ''Hello'', PStr ''Greetings, earthling.''])"
    by (simp add: first_history_def)
  from restore_snapshot_fails [OF snapshot_first_handle a b c, of framework_env]
    snapshot_first_handle a b c d
  show ?thesis by auto
qed

text \<open>
  The history of the first request is made by the service's own snapshot; one cycle on it
  ends in a \<^verbatim>\<open>KeyError\<close>.
\<close>

theorem restore_snapshot_counterexample:
  "main framework_env (PDict [(''human_input'', PStr ''Hello'')]) =
     Inr \<lparr>response = ''Greetings, earthling.'', history = first_history\<rparr> \<and>
   restore_snapshot framework_env first_history = Inl KeyError"
  by (simp add: main_framework_hello) (simp add: restore_snapshot_def framework_defs first_history_def)

end
